theory Spec2Isabelle
  imports Complex_Main "HOL-Library.Multiset"
begin

section \<open>Conversion utilities (scanners/wifi\_scanner.py)\<close>

text \<open>
  Python integers are unbounded, so frequencies and channels are \<^typ>\<open>int\<close>;
  \<open>//\<close> is floor division, which is \<open>div\<close> on \<^typ>\<open>int\<close>.  A returned
  \<open>None\<close> is \<^const>\<open>None\<close>.  The guard \<open>if not freq\<close> is true exactly for the
  integer 0.
\<close>

definition freq_to_channel :: "int \<Rightarrow> int option" where
  "freq_to_channel freq =
     (if freq = 0 then None
      else if 2412 \<le> freq \<and> freq \<le> 2484 then
        (if freq = 2484 then Some 14 else Some ((freq - 2407) div 5))
      else if 5180 \<le> freq \<and> freq \<le> 5825 then Some ((freq - 5000) div 5)
      else None)"

definition channel_to_freq :: "int \<Rightarrow> int option" where
  "channel_to_freq channel =
     (if 1 \<le> channel \<and> channel \<le> 13 then Some (2407 + channel * 5)
      else if channel = 14 then Some 2484
      else if 36 \<le> channel \<and> channel \<le> 165 then Some (5000 + channel * 5)
      else None)"

text \<open>
  \<open>int(x)\<close> of Python truncates towards zero.
\<close>

definition py_int :: "rat \<Rightarrow> int" where
  "py_int x = (if 0 \<le> x then \<lfloor>x\<rfloor> else \<lceil>x\<rceil>)"

text \<open>
  \<open>dbm_to_quality\<close> receives the signal as a Python number (an \<open>int\<close> from the
  iwlist parser and from the JSON feed, a \<open>float\<close> parsed from a decimal literal in
  the iw parser).  The model takes the number as a rational and evaluates the
  interpolation expression exactly; the source evaluates it in binary floating
  point.  The three guards compare numbers only and are exact in both.
  \<open>if not dbm\<close> is true exactly for the number zero.
\<close>

definition dbm_to_quality :: "rat \<Rightarrow> int" where
  "dbm_to_quality dbm =
     (if dbm = 0 then 0
      else if dbm \<ge> -30 then 100
      else if dbm \<le> -90 then 0
      else py_int (100 - ((-30 - dbm) / 60 * 100)))"


section \<open>Result accumulator (lib/json\_utils.py)\<close>

text \<open>
  \<open>create_scan_result\<close> accepts a list or a dictionary as \<open>data\<close>.  The result is a
  Python dictionary whose keys \<open>count\<close>, \<open>errors\<close> and \<open>warnings\<close> may be absent:
  an absent key is \<^const>\<open>None\<close>.  The timestamp is read from the clock and is a
  parameter here.
\<close>

datatype 'a scan_data = ListData "'a list" | DictData "(string \<times> 'a) list"

record ('a, 'm) envelope =
  env_scan_type :: string
  env_timestamp :: string
  env_version :: string
  env_data :: "'a scan_data"
  env_metadata :: "string \<rightharpoonup> 'm"
  env_count :: "nat option"
  env_errors :: "string list option"
  env_warnings :: "string list option"

definition create_scan_result ::
  "string \<Rightarrow> string \<Rightarrow> 'a scan_data \<Rightarrow> (string \<rightharpoonup> 'm) option \<Rightarrow> ('a, 'm) envelope" where
  "create_scan_result now scan_type data metadata =
     \<lparr> env_scan_type = scan_type,
       env_timestamp = now,
       env_version = ''1.0.0'',
       env_data = data,
       env_metadata = (case metadata of None \<Rightarrow> Map.empty | Some m \<Rightarrow> m),
       env_count = (case data of ListData xs \<Rightarrow> Some (length xs) | DictData _ \<Rightarrow> None),
       env_errors = None,
       env_warnings = None \<rparr>"

record ('a, 'm) builder =
  b_scan_type :: string
  b_items :: "'a list"
  b_metadata :: "string \<rightharpoonup> 'm"
  b_errors :: "string list"
  b_warnings :: "string list"

definition builder_init :: "string \<Rightarrow> ('a, 'm) builder" where
  "builder_init scan_type =
     \<lparr> b_scan_type = scan_type, b_items = [], b_metadata = Map.empty,
       b_errors = [], b_warnings = [] \<rparr>"

definition add_item :: "'a \<Rightarrow> ('a, 'm) builder \<Rightarrow> ('a, 'm) builder" where
  "add_item item b = b\<lparr>b_items := b_items b @ [item]\<rparr>"

definition add_metadata :: "string \<Rightarrow> 'm \<Rightarrow> ('a, 'm) builder \<Rightarrow> ('a, 'm) builder" where
  "add_metadata key val b = b\<lparr>b_metadata := (b_metadata b)(key \<mapsto> val)\<rparr>"

definition add_error :: "string \<Rightarrow> ('a, 'm) builder \<Rightarrow> ('a, 'm) builder" where
  "add_error e b = b\<lparr>b_errors := b_errors b @ [e]\<rparr>"

definition add_warning :: "string \<Rightarrow> ('a, 'm) builder \<Rightarrow> ('a, 'm) builder" where
  "add_warning w b = b\<lparr>b_warnings := b_warnings b @ [w]\<rparr>"

text \<open>
  \<open>build\<close>: the \<open>errors\<close> and \<open>warnings\<close> keys are written only when the
  builder's list is non-empty (\<open>if self.errors:\<close>).
\<close>

definition build :: "string \<Rightarrow> ('a, 'm) builder \<Rightarrow> ('a, 'm) envelope" where
  "build now b =
     (let result = create_scan_result now (b_scan_type b) (ListData (b_items b))
                     (Some (b_metadata b));
          result = (if b_errors b \<noteq> [] then result\<lparr>env_errors := Some (b_errors b)\<rparr>
                    else result);
          result = (if b_warnings b \<noteq> [] then result\<lparr>env_warnings := Some (b_warnings b)\<rparr>
                    else result)
      in result)"

text \<open>The builder's four mutators, as a datatype of calls, and a run of calls.\<close>

datatype ('a, 'm) builder_call =
    AddItem 'a
  | AddMetadata string 'm
  | AddError string
  | AddWarning string

fun apply_call :: "('a, 'm) builder \<Rightarrow> ('a, 'm) builder_call \<Rightarrow> ('a, 'm) builder" where
  "apply_call b (AddItem x) = add_item x b"
| "apply_call b (AddMetadata k v) = add_metadata k v b"
| "apply_call b (AddError e) = add_error e b"
| "apply_call b (AddWarning w) = add_warning w b"

definition run_calls :: "string \<Rightarrow> ('a, 'm) builder_call list \<Rightarrow> ('a, 'm) builder" where
  "run_calls scan_type calls = foldl apply_call (builder_init scan_type) calls"

fun errors_of :: "('a, 'm) builder_call list \<Rightarrow> string list" where
  "errors_of [] = []"
| "errors_of (AddError e # cs) = e # errors_of cs"
| "errors_of (_ # cs) = errors_of cs"

fun warnings_of :: "('a, 'm) builder_call list \<Rightarrow> string list" where
  "warnings_of [] = []"
| "warnings_of (AddWarning w # cs) = w # warnings_of cs"
| "warnings_of (_ # cs) = warnings_of cs"

fun items_of :: "('a, 'm) builder_call list \<Rightarrow> 'a list" where
  "items_of [] = []"
| "items_of (AddItem x # cs) = x # items_of cs"
| "items_of (_ # cs) = items_of cs"

section \<open>Concurrent prober (scanners/network\_scanner.py)\<close>


















section \<open>Text matching used by the parsers\<close>

text \<open>
  A Python string is a \<^typ>\<open>string\<close>, one \<^typ>\<open>char\<close> per character (characters
  below 256).  \<open>is_space\<close> is the whitespace of \<open>str.strip()\<close> and of the pattern
  \<open>\s\<close>; \<open>is_digit\<close> is \<open>\d\<close> (ASCII digits), \<open>is_hex_colon\<close> the class
  \<open>[0-9a-fA-F:]\<close>.
\<close>

definition is_space :: "char \<Rightarrow> bool" where
  "is_space c \<longleftrightarrow>
     c \<in> {CHR '' '', CHR 0x09, CHR 0x0A, CHR 0x0B, CHR 0x0C, CHR 0x0D,
          CHR 0x1C, CHR 0x1D, CHR 0x1E, CHR 0x1F, CHR 0x85, CHR 0xA0}"

definition is_digit :: "char \<Rightarrow> bool" where
  "is_digit c \<longleftrightarrow> c \<in> set ''0123456789''"

definition is_hex_colon :: "char \<Rightarrow> bool" where
  "is_hex_colon c \<longleftrightarrow> c \<in> set ''0123456789abcdefABCDEF:''"

definition digit_val :: "char \<Rightarrow> nat" where
  "digit_val c =
     (case map_of [(CHR ''0'', 0), (CHR ''1'', 1), (CHR ''2'', 2), (CHR ''3'', 3),
                   (CHR ''4'', 4), (CHR ''5'', 5), (CHR ''6'', 6), (CHR ''7'', 7),
                   (CHR ''8'', 8), (CHR ''9'', 9)] c of
        None \<Rightarrow> 0 | Some v \<Rightarrow> v)"

definition parse_nat :: "string \<Rightarrow> nat" where
  "parse_nat ds = foldl (\<lambda>a c. 10 * a + digit_val c) 0 ds"

text \<open>The value of a decimal literal \<open>d1.d2\<close> (\<open>float(...)\<close> of the matched text).\<close>

definition parse_decimal :: "bool \<Rightarrow> string \<Rightarrow> string \<Rightarrow> rat" where
  "parse_decimal neg d1 d2 =
     (let v = of_nat (parse_nat d1) + of_nat (parse_nat d2) / 10 ^ length d2
      in if neg then - v else v)"

definition upper_char :: "char \<Rightarrow> char" where
  "upper_char c =
     (case map_of (zip ''abcdefghijklmnopqrstuvwxyz'' ''ABCDEFGHIJKLMNOPQRSTUVWXYZ'') c of
        None \<Rightarrow> c | Some u \<Rightarrow> u)"

definition upper :: "string \<Rightarrow> string" where
  "upper s = map upper_char s"

definition strip :: "string \<Rightarrow> string" where
  "strip s = rev (dropWhile is_space (rev (dropWhile is_space s)))"

text \<open>\<open>s.split(c)\<close> for a one-character separator: never the empty list.\<close>

fun split_on :: "char \<Rightarrow> string \<Rightarrow> string list" where
  "split_on c [] = [[]]"
| "split_on c (x # xs) =
     (if x = c then [] # split_on c xs
      else (case split_on c xs of w # ws \<Rightarrow> (x # w) # ws | [] \<Rightarrow> [[x]]))"

definition starts_with :: "string \<Rightarrow> string \<Rightarrow> bool" where
  "starts_with p s \<longleftrightarrow> take (length p) s = p"

text \<open>\<open>sub in s\<close> on strings.\<close>

fun contains :: "string \<Rightarrow> string \<Rightarrow> bool" where
  "contains sub [] \<longleftrightarrow> sub = []"
| "contains sub (c # cs) \<longleftrightarrow> starts_with sub (c # cs) \<or> contains sub cs"

text \<open>
  Pieces of the regular expressions.  Every repetition in the patterns of the source
  is followed by something that cannot begin with a character of the repeated class
  (or by \<open>.*\<close>), so matching greedily without backtracking gives the match of
  \<open>re.match\<close>.  \<open>expect\<close> is a literal, \<open>spaces1\<close> is \<open>\s+\<close>, \<open>digits1\<close> is
  \<open>(\d+)\<close>, \<open>dot_star\<close> is \<open>(.*)\<close> (the dot does not match a newline), and
  \<open>search\<close> is \<open>re.search\<close>: the match at the leftmost position that has one.
\<close>

definition expect :: "string \<Rightarrow> string \<Rightarrow> string option" where
  "expect p s = (if starts_with p s then Some (drop (length p) s) else None)"

definition spaces :: "string \<Rightarrow> string" where
  "spaces s = dropWhile is_space s"

definition spaces1 :: "string \<Rightarrow> string option" where
  "spaces1 s = (if s \<noteq> [] \<and> is_space (hd s) then Some (dropWhile is_space s) else None)"

definition digits1 :: "string \<Rightarrow> (string \<times> string) option" where
  "digits1 s =
     (if s \<noteq> [] \<and> is_digit (hd s) then Some (takeWhile is_digit s, dropWhile is_digit s)
      else None)"

definition dot_star :: "string \<Rightarrow> string" where
  "dot_star s = takeWhile (\<lambda>c. c \<noteq> CHR 0x0A) s"

definition address17 :: "string \<Rightarrow> (string \<times> string) option" where
  "address17 s =
     (if 17 \<le> length s \<and> list_all is_hex_colon (take 17 s) then Some (take 17 s, drop 17 s)
      else None)"

definition optional_char :: "(char \<Rightarrow> bool) \<Rightarrow> string \<Rightarrow> bool \<times> string" where
  "optional_char P s = (if s \<noteq> [] \<and> P (hd s) then (True, tl s) else (False, s))"

fun search :: "(string \<Rightarrow> 'a option) \<Rightarrow> string \<Rightarrow> 'a option" where
  "search m [] = m []"
| "search m (c # cs) = (case m (c # cs) of Some r \<Rightarrow> Some r | None \<Rightarrow> search m cs)"

text \<open>The decimal \<open>\d+\.?\d*\<close> with an optional sign when \<open>signed\<close>.\<close>

definition decimal :: "bool \<Rightarrow> string \<Rightarrow> (rat \<times> string) option" where
  "decimal signed s =
     (let (neg, s1) = (if signed then optional_char (\<lambda>c. c = CHR ''-'') s else (False, s))
      in case digits1 s1 of
           None \<Rightarrow> None
         | Some (d1, s2) \<Rightarrow>
             (let (dot, s3) = optional_char (\<lambda>c. c = CHR ''.'') s2;
                  d2 = takeWhile is_digit s3;
                  s4 = dropWhile is_digit s3
              in Some (parse_decimal neg d1 d2, s4)))"


section \<open>Wireless scanner (scanners/wifi\_scanner.py)\<close>

record wifi_network =
  w_bssid :: string
  w_ssid :: "string option"
  w_frequency :: "int option"
  w_channel :: "int option"
  w_signal_dbm :: "rat option"
  w_signal_quality :: "int option"
  w_security :: string
  w_encryption :: "string list"

text \<open>The record a boundary line opens.\<close>

definition new_network :: "string \<Rightarrow> wifi_network" where
  "new_network addr =
     \<lparr> w_bssid = upper addr, w_ssid = None, w_frequency = None, w_channel = None,
       w_signal_dbm = None, w_signal_quality = None, w_security = ''Open'',
       w_encryption = [] \<rparr>"

definition ssid_or_hidden :: "string \<Rightarrow> string" where
  "ssid_or_hidden s = (if s \<noteq> [] then s else ''<hidden>'')"

subsection \<open>The iw parser\<close>

text \<open>\<open>BSS\s+([0-9a-fA-F:]{17})\<close>\<close>

definition match_bss :: "string \<Rightarrow> string option" where
  "match_bss line =
     (case expect ''BSS'' line of None \<Rightarrow> None
      | Some r \<Rightarrow> (case spaces1 r of None \<Rightarrow> None
          | Some a \<Rightarrow> map_option fst (address17 a)))"

text \<open>\<open>SSID:\s*(.*)\<close>\<close>

definition match_ssid :: "string \<Rightarrow> string option" where
  "match_ssid line = map_option (\<lambda>r. dot_star (spaces r)) (expect ''SSID:'' line)"

text \<open>\<open>freq:\s*(\d+)\<close>\<close>

definition match_freq :: "string \<Rightarrow> int option" where
  "match_freq line =
     (case expect ''freq:'' line of None \<Rightarrow> None
      | Some r \<Rightarrow> map_option (\<lambda>(d, _). int (parse_nat d)) (digits1 (spaces r)))"

text \<open>\<open>signal:\s*(-?\d+\.?\d*)\s*dBm\<close>\<close>

definition match_signal :: "string \<Rightarrow> rat option" where
  "match_signal line =
     (case expect ''signal:'' line of None \<Rightarrow> None
      | Some r \<Rightarrow> (case decimal True (spaces r) of None \<Rightarrow> None
          | Some (v, r') \<Rightarrow> map_option (\<lambda>_. v) (expect ''dBm'' (spaces r'))))"

text \<open>The two security tests at the end of the loop body.\<close>

definition iw_security :: "wifi_network \<Rightarrow> string \<Rightarrow> wifi_network" where
  "iw_security n line =
     (let n1 = (if contains ''WPA:'' line \<or> contains ''RSN:'' line then
                  (let e1 = (if contains ''WPA:'' line \<and> ''WPA'' \<notin> set (w_encryption n)
                             then w_encryption n @ [''WPA''] else w_encryption n);
                       e2 = (if contains ''RSN:'' line then e1 @ [''WPA2''] else e1)
                   in n\<lparr>w_encryption := e2, w_security := ''Secured''\<rparr>)
                else n)
      in if contains ''Privacy'' line \<and> w_encryption n1 = []
         then n1\<lparr>w_encryption := w_encryption n1 @ [''WEP''], w_security := ''Secured''\<rparr>
         else n1)"

text \<open>The loop body for a line that opens no record, on the open record \<open>n\<close>.\<close>

definition iw_field :: "wifi_network \<Rightarrow> string \<Rightarrow> wifi_network" where
  "iw_field n line =
     (case match_ssid line of
        Some s \<Rightarrow> n\<lparr>w_ssid := Some (ssid_or_hidden (strip s))\<rparr>
      | None \<Rightarrow>
     (case match_freq line of
        Some freq \<Rightarrow> n\<lparr>w_frequency := Some freq, w_channel := freq_to_channel freq\<rparr>
      | None \<Rightarrow>
     (case match_signal line of
        Some signal \<Rightarrow>
          n\<lparr>w_signal_dbm := Some signal, w_signal_quality := Some (dbm_to_quality signal)\<rparr>
      | None \<Rightarrow> iw_security n line)))"

text \<open>
  One turn of the loop: the state is the list \<open>networks\<close> and the open record
  \<open>current_network\<close>.
\<close>

definition iw_line ::
  "wifi_network list \<times> wifi_network option \<Rightarrow> string \<Rightarrow> wifi_network list \<times> wifi_network option"
  where
  "iw_line st raw =
     (let line = strip raw; networks = fst st; current = snd st
      in case match_bss line of
           Some addr \<Rightarrow>
             ((case current of Some n \<Rightarrow> networks @ [n] | None \<Rightarrow> networks),
              Some (new_network addr))
         | None \<Rightarrow>
             (case current of
                None \<Rightarrow> (networks, None)
              | Some n \<Rightarrow> (networks, Some (iw_field n line))))"

definition flush :: "wifi_network list \<times> wifi_network option \<Rightarrow> wifi_network list" where
  "flush st = (case snd st of Some n \<Rightarrow> fst st @ [n] | None \<Rightarrow> fst st)"

definition parse_iw :: "string \<Rightarrow> wifi_network list" where
  "parse_iw stdout = flush (foldl iw_line ([], None) (split_on (CHR 0x0A) stdout))"


subsection \<open>The iwlist parser\<close>

text \<open>\<open>Cell\s+\d+\s+-\s+Address:\s*([0-9a-fA-F:]{17})\<close>\<close>

definition match_cell :: "string \<Rightarrow> string option" where
  "match_cell line =
     (case expect ''Cell'' line of None \<Rightarrow> None | Some r1 \<Rightarrow>
     (case spaces1 r1 of None \<Rightarrow> None | Some r2 \<Rightarrow>
     (case digits1 r2 of None \<Rightarrow> None | Some (_, r3) \<Rightarrow>
     (case spaces1 r3 of None \<Rightarrow> None | Some r4 \<Rightarrow>
     (case expect ''-'' r4 of None \<Rightarrow> None | Some r5 \<Rightarrow>
     (case spaces1 r5 of None \<Rightarrow> None | Some r6 \<Rightarrow>
     (case expect ''Address:'' r6 of None \<Rightarrow> None | Some r7 \<Rightarrow>
        map_option fst (address17 (spaces r7)))))))))"

text \<open>
  \<open>ESSID:"(.*)"\<close>: the group is greedy, so it ends at the last double quote of the
  line.
\<close>

definition match_essid :: "string \<Rightarrow> string option" where
  "match_essid line =
     (case expect (''ESSID:'' @ [CHR 0x22]) line of None \<Rightarrow> None
      | Some r \<Rightarrow>
          (let body = dot_star r
           in if CHR 0x22 \<in> set body
              then Some (rev (tl (dropWhile (\<lambda>c. c \<noteq> CHR 0x22) (rev body))))
              else None))"

text \<open>\<open>Channel:(\d+)\<close>\<close>

definition match_channel :: "string \<Rightarrow> int option" where
  "match_channel line =
     (case expect ''Channel:'' line of None \<Rightarrow> None
      | Some r \<Rightarrow> map_option (\<lambda>(d, _). int (parse_nat d)) (digits1 r))"

text \<open>\<open>Frequency:(\d+\.?\d*)\s*GHz\<close>\<close>

definition match_frequency :: "string \<Rightarrow> rat option" where
  "match_frequency line =
     (case expect ''Frequency:'' line of None \<Rightarrow> None
      | Some r \<Rightarrow> (case decimal False r of None \<Rightarrow> None
          | Some (v, r') \<Rightarrow> map_option (\<lambda>_. v) (expect ''GHz'' (spaces r'))))"

text \<open>\<open>Signal level[=:]?\s*(-?\d+)\s*dBm\<close>, searched anywhere in the line.\<close>

definition signal_level_at :: "string \<Rightarrow> int option" where
  "signal_level_at s =
     (case expect ''Signal level'' s of None \<Rightarrow> None | Some r1 \<Rightarrow>
       (let r2 = spaces (snd (optional_char (\<lambda>c. c = CHR ''='' \<or> c = CHR '':'') r1));
            (neg, r3) = optional_char (\<lambda>c. c = CHR ''-'') r2
        in case digits1 r3 of None \<Rightarrow> None
           | Some (d, r4) \<Rightarrow>
               map_option (\<lambda>_. if neg then - int (parse_nat d) else int (parse_nat d))
                 (expect ''dBm'' (spaces r4))))"

definition search_signal_level :: "string \<Rightarrow> int option" where
  "search_signal_level line = search signal_level_at line"

text \<open>\<open>Quality[=:]?\s*(\d+)/(\d+)\<close>, searched anywhere in the line.\<close>

definition quality_at :: "string \<Rightarrow> (nat \<times> nat) option" where
  "quality_at s =
     (case expect ''Quality'' s of None \<Rightarrow> None | Some r1 \<Rightarrow>
       (let r2 = spaces (snd (optional_char (\<lambda>c. c = CHR ''='' \<or> c = CHR '':'') r1))
        in case digits1 r2 of None \<Rightarrow> None
           | Some (a, r3) \<Rightarrow>
               (case expect ''/'' r3 of None \<Rightarrow> None
                | Some r4 \<Rightarrow> map_option (\<lambda>(b, _). (parse_nat a, parse_nat b)) (digits1 r4))))"

definition search_quality :: "string \<Rightarrow> (nat \<times> nat) option" where
  "search_quality line = search quality_at line"

text \<open>\<open>Encryption key:(on|off)\<close>: \<^const>\<open>True\<close> for \<open>on\<close>.\<close>

definition match_encryption_key :: "string \<Rightarrow> bool option" where
  "match_encryption_key line =
     (case expect ''Encryption key:'' line of None \<Rightarrow> None
      | Some r \<Rightarrow> if starts_with ''on'' r then Some True
                  else if starts_with ''off'' r then Some False else None)"

text \<open>The \<open>if/elif/elif\<close> on the information-element lines.\<close>

definition iwlist_ie :: "wifi_network \<Rightarrow> string \<Rightarrow> wifi_network" where
  "iwlist_ie n line =
     (if contains ''WPA Version 1'' line then n\<lparr>w_encryption := w_encryption n @ [''WPA'']\<rparr>
      else if contains ''WPA2'' line \<or> contains ''IEEE 802.11i/WPA2'' line
        then n\<lparr>w_encryption := w_encryption n @ [''WPA2'']\<rparr>
      else if contains ''WEP'' line then n\<lparr>w_encryption := w_encryption n @ [''WEP'']\<rparr>
      else n)"

definition falsy :: "int option \<Rightarrow> bool" where
  "falsy v \<longleftrightarrow> v = None \<or> v = Some 0"

text \<open>
  The tail of the loop body, from the quality test on.  The quotient of the two
  quality numbers is a float division: a zero denominator raises
  \<open>ZeroDivisionError\<close>, which no handler of the function catches (\<^const>\<open>None\<close>).
  The quotient is evaluated exactly here, in binary floating point in the source.
\<close>

definition iwlist_tail :: "wifi_network \<Rightarrow> string \<Rightarrow> wifi_network option" where
  "iwlist_tail n line =
     (case (if falsy (w_signal_quality n) then search_quality line else None) of
        Some (a, b) \<Rightarrow>
          (if b = 0 then None
           else Some (n\<lparr>w_signal_quality := Some (py_int (of_nat a / of_nat b * 100))\<rparr>))
      | None \<Rightarrow>
     (case match_encryption_key line of
        Some on \<Rightarrow> Some (if on then n\<lparr>w_security := ''Secured''\<rparr> else n)
      | None \<Rightarrow> Some (iwlist_ie n line)))"

definition iwlist_field :: "wifi_network \<Rightarrow> string \<Rightarrow> wifi_network option" where
  "iwlist_field n line =
     (case match_essid line of
        Some s \<Rightarrow> Some (n\<lparr>w_ssid := Some (ssid_or_hidden s)\<rparr>)
      | None \<Rightarrow>
     (case match_channel line of
        Some ch \<Rightarrow> Some (n\<lparr>w_channel := Some ch, w_frequency := channel_to_freq ch\<rparr>)
      | None \<Rightarrow>
     (case match_frequency line of
        Some ghz \<Rightarrow>
          (let freq = py_int (ghz * 1000)
           in Some (n\<lparr>w_frequency := Some freq,
                      w_channel := (if falsy (w_channel n) then freq_to_channel freq
                                    else w_channel n)\<rparr>))
      | None \<Rightarrow>
     (case search_signal_level line of
        Some signal \<Rightarrow>
          Some (n\<lparr>w_signal_dbm := Some (of_int signal),
                  w_signal_quality := Some (dbm_to_quality (of_int signal))\<rparr>)
      | None \<Rightarrow> iwlist_tail n line))))"

definition iwlist_line ::
  "wifi_network list \<times> wifi_network option \<Rightarrow> string
     \<Rightarrow> (wifi_network list \<times> wifi_network option) option" where
  "iwlist_line st raw =
     (let line = strip raw; networks = fst st; current = snd st
      in case match_cell line of
           Some addr \<Rightarrow>
             Some ((case current of Some n \<Rightarrow> networks @ [n] | None \<Rightarrow> networks),
                   Some (new_network addr))
         | None \<Rightarrow>
             (case current of
                None \<Rightarrow> Some (networks, None)
              | Some n \<Rightarrow> map_option (\<lambda>n'. (networks, Some n')) (iwlist_field n line)))"

text \<open>The loop: an exception in one turn ends it.\<close>

fun iwlist_lines ::
  "wifi_network list \<times> wifi_network option \<Rightarrow> string list
     \<Rightarrow> (wifi_network list \<times> wifi_network option) option" where
  "iwlist_lines st [] = Some st"
| "iwlist_lines st (raw # raws) =
     (case iwlist_line st raw of None \<Rightarrow> None | Some st' \<Rightarrow> iwlist_lines st' raws)"

definition parse_iwlist :: "string \<Rightarrow> wifi_network list option" where
  "parse_iwlist stdout =
     map_option flush (iwlist_lines ([], None) (split_on (CHR 0x0A) stdout))"

subsection \<open>Running the tools\<close>

text \<open>
  \<open>subprocess.run\<close> either raises \<open>TimeoutExpired\<close> or \<open>FileNotFoundError\<close>, both
  caught by the scan functions, or completes with a return code and the text of
  standard output.
\<close>

datatype cmd_result = CmdRaised | CmdDone int string

text \<open>
  The outside world of one wireless scan: the interface list, the current connection
  of an interface, what each tool invocation returns for an interface, and the list
  that \<open>scan_wifi_networks_termux\<close> returns.  Every function is asked at most once
  per interface within one scan.
\<close>

record 'c wifi_env =
  get_wireless_interfaces :: "string list"
  get_current_connection :: "string \<Rightarrow> 'c option"
  iw_scan_trigger :: "string \<Rightarrow> cmd_result"
  iw_scan_dump :: "string \<Rightarrow> cmd_result"
  iw_scan :: "string \<Rightarrow> cmd_result"
  iwlist_scan :: "string \<Rightarrow> cmd_result"
  scan_wifi_networks_termux :: "wifi_network list"

definition scan_wifi_networks_iw :: "'c wifi_env \<Rightarrow> string \<Rightarrow> wifi_network list" where
  "scan_wifi_networks_iw env interface =
     (case iw_scan_trigger env interface of
        CmdRaised \<Rightarrow> []
      | CmdDone _ _ \<Rightarrow>
          (case iw_scan_dump env interface of
             CmdRaised \<Rightarrow> []
           | CmdDone rc out \<Rightarrow>
               (case (if rc \<noteq> 0 then iw_scan env interface else CmdDone rc out) of
                  CmdRaised \<Rightarrow> []
                | CmdDone rc' out' \<Rightarrow> if rc' = 0 then parse_iw out' else [])))"

definition scan_wifi_networks_iwlist ::
  "'c wifi_env \<Rightarrow> string \<Rightarrow> wifi_network list option" where
  "scan_wifi_networks_iwlist env interface =
     (case iwlist_scan env interface of
        CmdRaised \<Rightarrow> Some []
      | CmdDone rc out \<Rightarrow> if rc = 0 then parse_iwlist out else Some [])"

subsection \<open>The scan\<close>

text \<open>
  The three-stage chain of \<open>run_wifi_scan\<close> for one interface.  Beside the networks
  (\<^const>\<open>None\<close> when the iwlist stage raised) it returns the parser invocations it
  made, in order.
\<close>

datatype parser_call = CallIw string | CallIwlist string | CallTermux "string option"

definition scan_interface ::
  "'c wifi_env \<Rightarrow> string \<Rightarrow> wifi_network list option \<times> parser_call list" where
  "scan_interface env interface =
     (let networks = scan_wifi_networks_iw env interface;
          calls = [CallIw interface]
      in if networks \<noteq> [] then (Some networks, calls)
         else (case scan_wifi_networks_iwlist env interface of
                 None \<Rightarrow> (None, calls @ [CallIwlist interface])
               | Some networks \<Rightarrow>
                   if networks \<noteq> [] then (Some networks, calls @ [CallIwlist interface])
                   else (Some (scan_wifi_networks_termux env),
                         calls @ [CallIwlist interface, CallTermux (Some interface)])))"

text \<open>
  The loop that keeps the first record of each address (\<open>if bssid and bssid not in
  seen_bssids\<close>); \<open>run_bluetooth_scan\<close> has the same loop on \<open>address\<close>.
\<close>

fun add_unique ::
  "('a \<Rightarrow> string) \<Rightarrow> 'a list \<Rightarrow> 'a list \<times> string set \<Rightarrow> 'a list \<times> string set" where
  "add_unique key [] st = st"
| "add_unique key (x # xs) (found, seen) =
     (if key x \<noteq> [] \<and> key x \<notin> seen
      then add_unique key xs (found @ [x], insert (key x) seen)
      else add_unique key xs (found, seen))"

text \<open>
  \<open>all_networks.sort(key=lambda x: x.get('signal_dbm') or -100, reverse=True)\<close>: a
  missing or zero signal counts as -100; a reverse sort keeps records of equal key in
  their original order.
\<close>

definition signal_key :: "wifi_network \<Rightarrow> rat" where
  "signal_key n =
     (case w_signal_dbm n of None \<Rightarrow> -100 | Some v \<Rightarrow> if v = 0 then -100 else v)"

definition sort_by_signal :: "wifi_network list \<Rightarrow> wifi_network list" where
  "sort_by_signal nets = rev (sort_key signal_key (rev nets))"

datatype 'c wifi_meta = Interfaces "string list" | Connection 'c

type_synonym 'c wifi_state =
  "(wifi_network, 'c wifi_meta) builder \<times> wifi_network list \<times> string set"

fun scan_interfaces ::
  "'c wifi_env \<Rightarrow> string list \<Rightarrow> 'c wifi_state \<Rightarrow> 'c wifi_state option" where
  "scan_interfaces env [] st = Some st"
| "scan_interfaces env (interface # rest) (b, all_networks, seen_bssids) =
     (let b' = (case get_current_connection env interface of
                  Some current \<Rightarrow>
                    add_metadata (''current_connection_'' @ interface) (Connection current) b
                | None \<Rightarrow> b)
      in case fst (scan_interface env interface) of
           None \<Rightarrow> None
         | Some networks \<Rightarrow>
             (let (all_networks', seen') = add_unique w_bssid networks (all_networks, seen_bssids)
              in scan_interfaces env rest (b', all_networks', seen')))"

definition add_items :: "'a list \<Rightarrow> ('a, 'm) builder \<Rightarrow> ('a, 'm) builder" where
  "add_items xs b = foldl (\<lambda>b x. add_item x b) b xs"

text \<open>
  \<open>run_wifi_scan\<close>, without its printing and without the file it saves.  The result
  is \<^const>\<open>None\<close> when an exception leaves the function.
\<close>

definition run_wifi_scan ::
  "'c wifi_env \<Rightarrow> string \<Rightarrow> (wifi_network, 'c wifi_meta) envelope option" where
  "run_wifi_scan env now =
     (let interfaces = get_wireless_interfaces env;
          b = add_metadata ''interfaces'' (Interfaces interfaces) (builder_init ''wifi'')
      in if interfaces = []
         then Some (build now
                (add_items (scan_wifi_networks_termux env)
                   (add_warning ''No wireless interfaces found'' b)))
         else (case scan_interfaces env interfaces (b, [], {}) of
                 None \<Rightarrow> None
               | Some (b', all_networks, _) \<Rightarrow>
                   Some (build now (add_items (sort_by_signal all_networks) b'))))"


section \<open>Bluetooth scanner (scanners/bluetooth\_scanner.py)\<close>

record bt_device =
  bt_address :: string
  bt_name :: string
  bt_type :: string
  bt_rssi :: "int option"
  bt_device_class :: "int option"
  bt_device_type :: "string option"

text \<open>\<open>([0-9A-Fa-f:]{17})\s+(.*)\<close> on the stripped line: the address and the name.\<close>

definition match_ble :: "string \<Rightarrow> (string \<times> string) option" where
  "match_ble line =
     (case address17 (strip line) of None \<Rightarrow> None
      | Some (addr, r) \<Rightarrow>
          map_option (\<lambda>a. (upper addr, strip (dot_star a))) (spaces1 r))"

definition ble_device :: "string \<Rightarrow> string \<Rightarrow> bt_device" where
  "ble_device addr name =
     \<lparr> bt_address = addr,
       bt_name = (if name \<noteq> [] \<and> name \<noteq> ''(unknown)'' then name else ''<unknown>''),
       bt_type = ''BLE'', bt_rssi = None, bt_device_class = None,
       bt_device_type = Some ''BLE Device'' \<rparr>"

text \<open>
  \<open>existing['name'] = ...\<close> writes to the first record of the list that has the
  address.
\<close>

fun rename_first :: "string \<Rightarrow> string \<Rightarrow> bt_device list \<Rightarrow> bt_device list" where
  "rename_first addr name [] = []"
| "rename_first addr name (d # ds) =
     (if bt_address d = addr then d\<lparr>bt_name := name\<rparr> # ds
      else d # rename_first addr name ds)"

text \<open>
  The body of the read loop of \<open>scan_ble_devices\<close> for a matched line: the state is
  the list \<open>devices\<close> and the set \<open>seen_addresses\<close>.
\<close>

definition ble_entry ::
  "bt_device list \<times> string set \<Rightarrow> string \<times> string \<Rightarrow> bt_device list \<times> string set" where
  "ble_entry st e =
     (let devices = fst st; seen = snd st; addr = fst e; name = snd e
      in if addr \<in> seen \<and> (name = ''(unknown)'' \<or> name = [])
         then (devices, seen)
         else
           (let seen' = insert addr seen;
                device = ble_device addr name
            in case find (\<lambda>d. bt_address d = addr) devices of
                 Some existing \<Rightarrow>
                   (if bt_name device \<noteq> ''<unknown>'' \<and> bt_name existing = ''<unknown>''
                    then (rename_first addr (bt_name device) devices, seen')
                    else (devices, seen'))
               | None \<Rightarrow> (devices @ [device], seen')))"

definition ble_line ::
  "bt_device list \<times> string set \<Rightarrow> string \<Rightarrow> bt_device list \<times> string set" where
  "ble_line st line = (case match_ble line of None \<Rightarrow> st | Some e \<Rightarrow> ble_entry st e)"

text \<open>
  \<open>scan_ble_devices\<close> on the lines it reads from the tool before the scan duration
  is over (none when the tool cannot be started).
\<close>

definition scan_ble_devices :: "string list \<Rightarrow> bt_device list" where
  "scan_ble_devices lines = fst (foldl ble_line ([], {}) lines)"

text \<open>
  The part of the adapter loop of \<open>run_bluetooth_scan\<close> that collects the devices of
  one adapter: the classic devices first, then the BLE devices, each kept only if its
  address is new.
\<close>

definition collect_adapter ::
  "bt_device list \<Rightarrow> bt_device list \<Rightarrow> bt_device list \<times> string set
     \<Rightarrow> bt_device list \<times> string set" where
  "collect_adapter classic_devices ble_devices st =
     add_unique bt_address ble_devices (add_unique bt_address classic_devices st)"


text \<open>
  The names the read loop takes for no name: the record built from such a line has
  the name \<open><unknown>\<close>.
\<close>

definition placeholder_name :: "string \<Rightarrow> bool" where
  "placeholder_name name \<longleftrightarrow> name = [] \<or> name = ''(unknown)'' \<or> name = ''<unknown>''"

text \<open>A record as \<open>scan_classic_bluetooth\<close> builds it before the class lookup.\<close>

definition classic_device :: "string \<Rightarrow> string \<Rightarrow> bt_device" where
  "classic_device addr name =
     \<lparr> bt_address = addr, bt_name = (if name \<noteq> [] then name else ''<unknown>''),
       bt_type = ''Classic'', bt_rssi = None, bt_device_class = None,
       bt_device_type = None \<rparr>"


text \<open>
  Two notions used to state what the read loop computes: the name the merged record of
  an address ends with (the first name for the address that is no placeholder, if
  any), and the invariant of the loop state after the matched lines \<open>es\<close>.
\<close>

definition best_name :: "string \<Rightarrow> (string \<times> string) list \<Rightarrow> string" where
  "best_name A es = (case find (\<lambda>e. fst e = A \<and> \<not> placeholder_name (snd e)) es of
      None \<Rightarrow> ''<unknown>'' | Some e \<Rightarrow> snd e)"

definition ble_inv :: "(string \<times> string) list \<Rightarrow> bt_device list \<times> string set \<Rightarrow> bool" where
  "ble_inv es st \<longleftrightarrow>
     snd st = fst ` set es \<and> distinct (map bt_address (fst st))
     \<and> bt_address ` set (fst st) = fst ` set es
     \<and> (\<forall>d\<in>set (fst st). d = ble_device (bt_address d) (best_name (bt_address d) es))"






section \<open>Sample scans\<close>


definition wenv0 :: "unit wifi_env" where
  "wenv0 = \<lparr> get_wireless_interfaces = [''wlan0''],
       get_current_connection = (\<lambda>_. None),
       iw_scan_trigger = (\<lambda>_. CmdRaised),
       iw_scan_dump = (\<lambda>_. CmdRaised),
       iw_scan = (\<lambda>_. CmdRaised),
       iwlist_scan = (\<lambda>_. CmdRaised),
       scan_wifi_networks_termux = [] \<rparr>"

definition wenv1 :: "unit wifi_env" where
  "wenv1 = \<lparr> get_wireless_interfaces = [''wlan0''],
       get_current_connection = (\<lambda>_. None),
       iw_scan_trigger = (\<lambda>_. CmdDone 0 []),
       iw_scan_dump = (\<lambda>_. CmdDone 0
          (''BSS aa:bb:cc:dd:ee:01'' @ [CHR 0x0A] @ ''BSS aa:bb:cc:dd:ee:02'' @ [CHR 0x0A]
            @ ''signal: -105.00 dBm'')),
       iw_scan = (\<lambda>_. CmdRaised),
       iwlist_scan = (\<lambda>_. CmdRaised),
       scan_wifi_networks_termux = [] \<rparr>"

definition wenv2 :: "unit wifi_env" where
  "wenv2 = \<lparr> get_wireless_interfaces = [],
       get_current_connection = (\<lambda>_. None),
       iw_scan_trigger = (\<lambda>_. CmdRaised),
       iw_scan_dump = (\<lambda>_. CmdRaised),
       iw_scan = (\<lambda>_. CmdRaised),
       iwlist_scan = (\<lambda>_. CmdRaised),
       scan_wifi_networks_termux =
         [(new_network ''aa:bb:cc:dd:ee:01'')\<lparr>w_signal_dbm := Some (-80)\<rparr>,
          (new_network ''aa:bb:cc:dd:ee:02'')\<lparr>w_signal_dbm := Some (-40)\<rparr>] \<rparr>"



section \<open>Verified properties\<close>

subsection \<open>Frequency and channel conversion\<close>

text \<open>
  Claim C1 (as amended).  The claimed set \<open>{2412, 2417, ..., 2484 step 5}\<close> holds
  2477 and 2482, which are no channel centres: the round trip through
  \<open>freq_to_channel\<close> and \<open>channel_to_freq\<close> returns \<open>f\<close> for every \<open>f\<close> in
  \<open>{2412, 2417, ..., 2472}\<close>, for 2484, and for every \<open>f\<close> in
  \<open>{5180, 5185, ..., 5825}\<close>.  \<open>channel_to_freq\<close> applied to \<open>None\<close> raises in
  Python, so the composition is the bind of \<^typ>\<open>int option\<close>.
\<close>

theorem C1_roundtrip_standard:
  assumes "(\<exists>k. 0 \<le> k \<and> k \<le> 12 \<and> f = 2412 + 5 * k) \<or> f = 2484
           \<or> (\<exists>k. 0 \<le> k \<and> k \<le> 129 \<and> f = 5180 + 5 * k)"
  shows "Option.bind (freq_to_channel f) channel_to_freq = Some f"
proof -
  consider (low) k where "0 \<le> k" "k \<le> 12" "f = 2412 + 5 * k"
    | (japan) "f = 2484"
    | (high) k where "0 \<le> k" "k \<le> 129" "f = 5180 + 5 * k"
    using assms by blast
  then show ?thesis
  proof cases
    case low
    have "(f - 2407) div 5 = k + 1" using low by simp
    then show ?thesis using low by (simp add: freq_to_channel_def channel_to_freq_def)
  next
    case japan
    then show ?thesis by (simp add: freq_to_channel_def channel_to_freq_def)
  next
    case high
    have "(f - 5000) div 5 = k + 36" using high by simp
    then show ?thesis using high by (simp add: freq_to_channel_def channel_to_freq_def)
  qed
qed

theorem C1_roundtrip_standard_witness:
  "Option.bind (freq_to_channel 2437) channel_to_freq = Some 2437"
proof -
  have "\<exists>k::int. 0 \<le> k \<and> k \<le> 12 \<and> 2437 = 2412 + 5 * k"
    by (rule exI [of _ 5]) simp
  then show ?thesis using C1_roundtrip_standard [of 2437] by blast
qed

text \<open>
  Claim C1 as stated fails at 2477 MHz, the fourteenth element of
  \<open>2412, 2417, ...\<close>: it maps to channel 14, and channel 14 maps to 2484 MHz.
\<close>

theorem C1_counterexample:
  "2477 = 2412 + 5 * (13::int) \<and> (2477::int) \<le> 2484
   \<and> freq_to_channel 2477 = Some 14 \<and> channel_to_freq 14 = Some 2484
   \<and> Option.bind (freq_to_channel 2477) channel_to_freq \<noteq> Some 2477"
  by (simp add: freq_to_channel_def channel_to_freq_def)

subsection \<open>Signal quality\<close>

text \<open>
  Claim C2 at the reading 0 dBm: the guard \<open>if not dbm\<close> returns 0 there, although
  0 is above -30 dBm, where the function's next branch returns 100; so the quality at
  -30 dBm (100) is above the quality at 0 dBm (0).
\<close>

theorem C2_zero_reading:
  "dbm_to_quality 0 = 0 \<and> dbm_to_quality (-30) = 100
   \<and> \<not> dbm_to_quality (-30) \<le> dbm_to_quality 0"
  by (simp add: dbm_to_quality_def)

subsection \<open>Envelope\<close>

text \<open>
  Claim C9.  In every envelope made by \<open>create_scan_result\<close> the \<open>count\<close> key is
  present and equal to the length of \<open>data\<close> when \<open>data\<close> is a list, and absent
  when it is not; \<open>build\<close> passes the builder's item list, so its envelope always
  has \<open>count = len(data)\<close>.
\<close>

theorem C9_count:
  "env_count (create_scan_result now st d md)
     = (case d of ListData xs \<Rightarrow> Some (length xs) | DictData kv \<Rightarrow> None)
   \<and> env_data (create_scan_result now st d md) = d
   \<and> env_data (build now b) = ListData (b_items b)
   \<and> env_count (build now b) = Some (length (b_items b))"
  by (simp add: create_scan_result_def build_def Let_def)

lemma run_calls_fields:
  "b_errors (foldl apply_call b cs) = b_errors b @ errors_of cs
   \<and> b_warnings (foldl apply_call b cs) = b_warnings b @ warnings_of cs
   \<and> b_items (foldl apply_call b cs) = b_items b @ items_of cs"
proof (induction cs arbitrary: b)
  case Nil
  show ?case by simp
next
  case (Cons c cs)
  show ?case
    by (cases c)
      (simp_all add: Cons.IH add_item_def add_metadata_def add_error_def add_warning_def)
qed

text \<open>
  Claim C10.  After any run of builder calls, the built envelope has an \<open>errors\<close> key
  exactly when an error was added, holding the added errors in the order of the calls,
  and likewise for \<open>warnings\<close>; an empty list is never written.
\<close>

theorem C10_errors_warnings:
  "env_errors (build now (run_calls st cs))
     = (if errors_of cs = [] then None else Some (errors_of cs))
   \<and> env_warnings (build now (run_calls st cs))
     = (if warnings_of cs = [] then None else Some (warnings_of cs))"
  by (simp add: build_def Let_def run_calls_def run_calls_fields builder_init_def
      create_scan_result_def)

theorem C10_errors_warnings_witness:
  "env_errors (build ''t'' (run_calls ''wifi''
      [AddWarning ''w1'', AddItem (1::nat), AddMetadata ''k'' (0::nat), AddWarning ''w2'']))
     = None
   \<and> env_warnings (build ''t'' (run_calls ''wifi''
      [AddWarning ''w1'', AddItem (1::nat), AddMetadata ''k'' (0::nat), AddWarning ''w2'']))
     = Some [''w1'', ''w2'']"
  using C10_errors_warnings [of "''t''" "''wifi''"
      "[AddWarning ''w1'', AddItem (1::nat), AddMetadata ''k'' (0::nat), AddWarning ''w2'']"]
  by simp

subsection \<open>Target cap of the host prober\<close>





subsection \<open>Order of the prober's results\<close>






lemma add_items_fields:
  "b_items (add_items xs b) = b_items b @ xs \<and> b_warnings (add_items xs b) = b_warnings b
   \<and> b_errors (add_items xs b) = b_errors b"
  unfolding add_items_def
  by (induction xs arbitrary: b) (simp_all add: add_item_def)

lemma scan_interfaces_builder:
  "scan_interfaces env ifs st = Some st' \<Longrightarrow>
     b_items (fst st') = b_items (fst st) \<and> b_warnings (fst st') = b_warnings (fst st)
     \<and> b_errors (fst st') = b_errors (fst st)"
proof (induction ifs arbitrary: st)
  case Nil
  then show ?case by simp
next
  case (Cons interface rest)
  obtain b al seen where st: "st = (b, al, seen)" by (cases st)
  define b1 where "b1 = (case get_current_connection env interface of
                  Some current \<Rightarrow>
                    add_metadata (''current_connection_'' @ interface) (Connection current) b
                | None \<Rightarrow> b)"
  have b1: "b_items b1 = b_items b \<and> b_warnings b1 = b_warnings b \<and> b_errors b1 = b_errors b"
    by (simp add: b1_def add_metadata_def split: option.splits)
  from Cons.prems obtain nets where
    rec: "scan_interfaces env rest (b1, add_unique w_bssid nets (al, seen)) = Some st'"
    by (auto simp: st b1_def Let_def split: option.splits prod.splits)
  from Cons.IH [OF rec] b1 show ?case by (simp add: st)
qed






subsection \<open>Fallback chain of the wireless scan\<close>

text \<open>
  Claim C3 (as amended).  For each interface the iwlist parser is invoked exactly when
  the iw parser produced no record, and the vendor parser exactly when both produced
  none.  The envelope records no warning for an exhausted stage: its only warning is
  \<open>No wireless interfaces found\<close>, present exactly when the interface list is
  empty.
\<close>

theorem C3_fallback_chain:
  "(CallIwlist i \<in> set (snd (scan_interface env i)) \<longleftrightarrow> scan_wifi_networks_iw env i = [])
   \<and> (CallTermux (Some i) \<in> set (snd (scan_interface env i)) \<longleftrightarrow>
        scan_wifi_networks_iw env i = [] \<and> scan_wifi_networks_iwlist env i = Some [])
   \<and> (run_wifi_scan env now = Some e \<longrightarrow>
        env_warnings e = (if get_wireless_interfaces env = []
                          then Some [''No wireless interfaces found''] else None))"
proof -
  have a: "(CallIwlist i \<in> set (snd (scan_interface env i)) \<longleftrightarrow> scan_wifi_networks_iw env i = [])"
    by (simp add: scan_interface_def Let_def split: option.splits)
  have b: "(CallTermux (Some i) \<in> set (snd (scan_interface env i)) \<longleftrightarrow>
        scan_wifi_networks_iw env i = [] \<and> scan_wifi_networks_iwlist env i = Some [])"
    by (simp add: scan_interface_def Let_def split: option.splits)
  have c: "env_warnings e = (if get_wireless_interfaces env = []
                          then Some [''No wireless interfaces found''] else None)"
    if run: "run_wifi_scan env now = Some e"
  proof (cases "get_wireless_interfaces env = []")
    case True
    with run show ?thesis
      by (auto simp: run_wifi_scan_def Let_def build_def create_scan_result_def
          add_items_fields add_warning_def add_metadata_def builder_init_def)
  next
    case False
    let ?b = "add_metadata ''interfaces'' (Interfaces (get_wireless_interfaces env)) (builder_init ''wifi'')"
    from run False obtain b' al seen where
      sc: "scan_interfaces env (get_wireless_interfaces env) (?b, [], {}) = Some (b', al, seen)"
      and e: "e = build now (add_items (sort_by_signal al) b')"
      by (auto simp: run_wifi_scan_def Let_def split: option.splits)
    have "b_warnings b' = []"
      using scan_interfaces_builder [OF sc] by (simp add: add_metadata_def builder_init_def)
    then show ?thesis using False
      by (simp add: e build_def Let_def create_scan_result_def add_items_fields)
  qed
  from a b c show ?thesis by blast
qed

theorem C3_fallback_chain_witness:
  "CallIwlist ''wlan0'' \<notin> set (snd (scan_interface wenv1 ''wlan0''))
   \<and> CallTermux (Some ''wlan0'') \<notin> set (snd (scan_interface wenv1 ''wlan0''))
   \<and> (case run_wifi_scan wenv2 ''t'' of
        Some e \<Rightarrow> env_warnings e = Some [''No wireless interfaces found'']
      | None \<Rightarrow> False)"
proof -
  obtain e where e: "run_wifi_scan wenv2 ''t'' = Some e"
  proof -
    have "run_wifi_scan wenv2 ''t'' \<noteq> None" by code_simp
    then show ?thesis using that by blast
  qed
  have ifs: "get_wireless_interfaces wenv2 = []" by (simp add: wenv2_def)
  have iw: "scan_wifi_networks_iw wenv1 ''wlan0'' \<noteq> []" by code_simp
  from C3_fallback_chain [of "''wlan0''" wenv1 "''t''" e]
       C3_fallback_chain [of "''wlan0''" wenv2 "''t''" e] e ifs iw
  show ?thesis by simp
qed

text \<open>
  Claim C3 as stated fails when every stage is exhausted: all three parsers are
  invoked for the interface, the envelope holds no record, and it has no
  \<open>warnings\<close> key.
\<close>

theorem C3_counterexample:
  "snd (scan_interface wenv0 ''wlan0'')
     = [CallIw ''wlan0'', CallIwlist ''wlan0'', CallTermux (Some ''wlan0'')]
   \<and> map_option env_warnings (run_wifi_scan wenv0 ''t'') = Some None
   \<and> map_option env_count (run_wifi_scan wenv0 ''t'') = Some (Some 0)"
  by code_simp

subsection \<open>Deduplication\<close>

lemma find_append_cases:
  "find P (xs @ ys) = (case find P xs of None \<Rightarrow> find P ys | Some x \<Rightarrow> Some x)"
  by (induction xs) simp_all

lemma find_Some_holds: "find P xs = Some x \<Longrightarrow> P x \<and> x \<in> set xs"
  by (induction xs) (auto split: if_splits)

lemma ble_device_placeholder:
  "placeholder_name n \<Longrightarrow> ble_device A n = ble_device A ''<unknown>''"
  by (auto simp: placeholder_name_def ble_device_def)

lemma ble_device_name:
  "bt_name (ble_device A n) = (if placeholder_name n then ''<unknown>'' else n)"
  by (auto simp: placeholder_name_def ble_device_def)

lemma ble_device_address [simp]: "bt_address (ble_device A n) = A"
  by (simp add: ble_device_def)

lemma ble_device_rename:
  "\<not> placeholder_name n \<Longrightarrow> (ble_device A m)\<lparr>bt_name := n\<rparr> = ble_device A n"
  by (auto simp: placeholder_name_def ble_device_def)

lemma rename_first_addresses [simp]:
  "map bt_address (rename_first a n ds) = map bt_address ds"
  by (induction ds) simp_all

lemma rename_first_set:
  "d' \<in> set (rename_first a n ds) \<Longrightarrow>
     (d' \<in> set ds \<and> bt_address d' \<noteq> a) \<or> (\<exists>d\<in>set ds. bt_address d = a \<and> d' = d\<lparr>bt_name := n\<rparr>)
     \<or> (d' \<in> set ds \<and> bt_address d' = a \<and> \<not> distinct (map bt_address ds))"
proof (induction ds)
  case Nil
  then show ?case by simp
next
  case (Cons d ds)
  show ?case
  proof (cases "bt_address d = a")
    case True
    with Cons.prems have "d' = d\<lparr>bt_name := n\<rparr> \<or> d' \<in> set ds" by simp
    then show ?thesis
    proof
      assume "d' = d\<lparr>bt_name := n\<rparr>"
      then show ?thesis using True by auto
    next
      assume in_ds: "d' \<in> set ds"
      show ?thesis
      proof (cases "bt_address d' = a")
        case True
        have "bt_address d \<in> set (map bt_address ds)"
          using in_ds True \<open>bt_address d = a\<close> by force
        then have "\<not> distinct (map bt_address (d # ds))" by simp
        with in_ds True show ?thesis by simp
      next
        case False
        with in_ds show ?thesis by simp
      qed
    qed
  next
    case False
    with Cons.prems have "d' = d \<or> d' \<in> set (rename_first a n ds)" by simp
    then show ?thesis
    proof
      assume "d' = d"
      with False show ?thesis by simp
    next
      assume "d' \<in> set (rename_first a n ds)"
      from Cons.IH [OF this] False show ?thesis by auto
    qed
  qed
qed

lemma best_name_unknown:
  "best_name A es = ''<unknown>'' \<longleftrightarrow> find (\<lambda>e. fst e = A \<and> \<not> placeholder_name (snd e)) es = None"
proof (cases "find (\<lambda>e. fst e = A \<and> \<not> placeholder_name (snd e)) es")
  case None
  then show ?thesis by (simp add: best_name_def)
next
  case (Some e)
  from find_Some_holds [OF Some] have "snd e \<noteq> ''<unknown>''"
    by (auto simp: placeholder_name_def)
  then show ?thesis using Some by (simp add: best_name_def)
qed

lemma best_name_snoc:
  "best_name A (es @ [(a, n)]) =
     (if best_name A es = ''<unknown>'' \<and> a = A \<and> \<not> placeholder_name n then n else best_name A es)"
proof (cases "find (\<lambda>e. fst e = A \<and> \<not> placeholder_name (snd e)) es")
  case None
  then have "best_name A es = ''<unknown>''" by (simp add: best_name_unknown)
  then show ?thesis using None by (simp add: best_name_def find_append_cases)
next
  case (Some e)
  then have "best_name A es \<noteq> ''<unknown>''" by (simp add: best_name_unknown)
  then show ?thesis using Some by (simp add: best_name_def find_append_cases)
qed

lemma ble_entry_inv:
  assumes "ble_inv es st"
  shows "ble_inv (es @ [(a, n)]) (ble_entry st (a, n))"
proof -
  obtain devs seen where st: "st = (devs, seen)" by (cases st)
  from assms have seen: "seen = fst ` set es" and dist: "distinct (map bt_address devs)"
    and addrs: "bt_address ` set devs = fst ` set es"
    and names: "\<And>d. d \<in> set devs \<Longrightarrow> d = ble_device (bt_address d) (best_name (bt_address d) es)"
    by (auto simp: ble_inv_def st)
  show ?thesis
  proof (cases "a \<in> seen \<and> (n = ''(unknown)'' \<or> n = [])")
    case True
    then have ph: "placeholder_name n" by (auto simp: placeholder_name_def)
    have "ble_entry st (a, n) = (devs, seen)" using True by (simp add: ble_entry_def st)
    moreover have "best_name A (es @ [(a, n)]) = best_name A es" for A
      using ph by (simp add: best_name_snoc)
    ultimately show ?thesis using True seen dist addrs names
      by (auto simp: ble_inv_def)
  next
    case False
    show ?thesis
    proof (cases "find (\<lambda>d. bt_address d = a) devs")
      case None
      then have notin: "a \<notin> bt_address ` set devs" by (auto simp: find_None_iff)
      then have fresh: "a \<notin> fst ` set es" using addrs by simp
      have step: "ble_entry st (a, n) = (devs @ [ble_device a n], insert a seen)"
        using False None by (simp add: ble_entry_def st Let_def)
      have bn_a: "best_name a es = ''<unknown>''"
        using fresh by (force simp: best_name_unknown find_None_iff)
      have new: "ble_device a n = ble_device a (best_name a (es @ [(a, n)]))"
        using bn_a by (simp add: best_name_snoc ble_device_placeholder)
      have old: "d = ble_device (bt_address d) (best_name (bt_address d) (es @ [(a, n)]))"
        if "d \<in> set devs" for d
      proof -
        have "bt_address d \<noteq> a" using that notin by auto
        then show ?thesis using names [OF that] by (simp add: best_name_snoc)
      qed
      show ?thesis using step dist notin addrs seen new old
        by (auto simp: ble_inv_def)
    next
      case (Some existing)
      then have ex: "existing \<in> set devs" "bt_address existing = a"
        using find_Some_holds by fastforce+
      have exn: "bt_name existing = (if placeholder_name (best_name a es) then ''<unknown>'' else best_name a es)"
        using names [OF ex(1)] ex(2) ble_device_name [of a "best_name a es"] by simp
      have bn_ph: "placeholder_name (best_name a es) \<longleftrightarrow> best_name a es = ''<unknown>''"
      proof (cases "find (\<lambda>e. fst e = a \<and> \<not> placeholder_name (snd e)) es")
        case None
        then show ?thesis by (simp add: best_name_def placeholder_name_def)
      next
        case (Some e)
        from find_Some_holds [OF Some] have "\<not> placeholder_name (snd e)" by simp
        moreover from this have "snd e \<noteq> ''<unknown>''" by (auto simp: placeholder_name_def)
        ultimately show ?thesis using Some by (simp add: best_name_def)
      qed
      have a_in: "a \<in> fst ` set es" using ex addrs by force
      show ?thesis
      proof (cases "bt_name (ble_device a n) \<noteq> ''<unknown>'' \<and> bt_name existing = ''<unknown>''")
        case True
        then have nph: "\<not> placeholder_name n" and bn: "best_name a es = ''<unknown>''"
          using exn bn_ph by (auto simp: ble_device_name split: if_splits)
        have step: "ble_entry st (a, n) = (rename_first a n devs, insert a seen)"
          using False Some True nph by (auto simp: ble_entry_def st Let_def ble_device_name)
        have all: "d' = ble_device (bt_address d') (best_name (bt_address d') (es @ [(a, n)]))"
          if "d' \<in> set (rename_first a n devs)" for d'
        proof -
          from rename_first_set [OF that] dist
          consider (other) "d' \<in> set devs" "bt_address d' \<noteq> a"
            | (renamed) d where "d \<in> set devs" "bt_address d = a" "d' = d\<lparr>bt_name := n\<rparr>"
            by blast
          then show ?thesis
          proof cases
            case other
            then show ?thesis using names [of d'] by (simp add: best_name_snoc)
          next
            case renamed
            have "d = ble_device a (best_name a es)" using names [OF renamed(1)] renamed(2) by simp
            then have "d' = ble_device a n" using renamed(3) nph by (simp add: ble_device_rename)
            then show ?thesis using bn nph by (simp add: best_name_snoc)
          qed
        qed
        have "bt_address ` set (rename_first a n devs) = bt_address ` set devs"
          using rename_first_addresses [of a n devs] by (metis set_map)
        then show ?thesis using step dist addrs seen all a_in
          by (auto simp: ble_inv_def)
      next
        case no: False
        have step: "ble_entry st (a, n) = (devs, insert a seen)"
          using False Some no by (auto simp: ble_entry_def st Let_def)
        have "best_name A (es @ [(a, n)]) = best_name A es" for A
          using no exn bn_ph by (auto simp: best_name_snoc ble_device_name split: if_splits)
        then show ?thesis using step dist addrs seen names a_in
          by (auto simp: ble_inv_def)
      qed
    qed
  qed
qed

lemma ble_fold_inv: "ble_inv es (foldl ble_entry ([], {}) es)"
proof (induction es rule: rev_induct)
  case Nil
  show ?case by (simp add: ble_inv_def)
next
  case (snoc e es)
  obtain a n where e: "e = (a, n)" by (cases e)
  show ?case using ble_entry_inv [OF snoc.IH, of a n] by (simp add: e)
qed

lemma distinct_filter_single:
  "distinct (map f xs) \<Longrightarrow> x \<in> set xs \<Longrightarrow> filter (\<lambda>y. f y = f x) xs = [x]"
proof (induction xs)
  case Nil
  then show ?case by simp
next
  case (Cons y ys)
  show ?case
  proof (cases "x = y")
    case True
    have "f y \<notin> f ` set ys" using Cons.prems(1) by simp
    then have "filter (\<lambda>z. f z = f y) ys = []"
      unfolding filter_empty_conv by (metis image_eqI)
    then show ?thesis using True by simp
  next
    case False
    then have "x \<in> set ys" using Cons.prems(2) by simp
    moreover have "f y \<noteq> f x"
    proof
      assume "f y = f x"
      then have "f y \<in> f ` set ys" using \<open>x \<in> set ys\<close> by (simp add: image_iff) blast
      then show False using Cons.prems(1) by simp
    qed
    ultimately show ?thesis using Cons by simp
  qed
qed

lemma ble_merge_result:
  assumes "A \<in> fst ` set es"
  shows "filter (\<lambda>d. bt_address d = A) (fst (foldl ble_entry ([], {}) es))
       = [ble_device A (best_name A es)]"
proof -
  let ?devs = "fst (foldl ble_entry ([], {}) es)"
  from ble_fold_inv [of es] have dist: "distinct (map bt_address ?devs)"
    and addrs: "bt_address ` set ?devs = fst ` set es"
    and names: "\<And>d. d \<in> set ?devs \<Longrightarrow> d = ble_device (bt_address d) (best_name (bt_address d) es)"
    by (auto simp: ble_inv_def)
  from assms addrs obtain d where d: "d \<in> set ?devs" "bt_address d = A" by force
  from distinct_filter_single [OF dist d(1)] d(2) names [OF d(1)] show ?thesis by simp
qed

lemma scan_ble_devices_entries:
  "foldl ble_line st lines = foldl ble_entry st (List.map_filter match_ble lines)"
  by (induction lines arbitrary: st) (simp_all add: ble_line_def List.map_filter_simps split: option.splits)

lemma add_unique_filter:
  "filter (\<lambda>y. key y = B) (fst (add_unique key xs (found, seen)))
     = filter (\<lambda>y. key y = B) found
       @ (if B \<in> seen \<or> B = [] then []
          else (case find (\<lambda>y. key y = B) xs of None \<Rightarrow> [] | Some x \<Rightarrow> [x]))"
  by (induction xs arbitrary: found seen) auto

lemma add_unique_append:
  "add_unique key (xs @ ys) st = add_unique key ys (add_unique key xs st)"
proof (induction xs arbitrary: st)
  case Nil
  show ?case by simp
next
  case (Cons x xs)
  obtain found seen where "st = (found, seen)" by (cases st)
  then show ?case using Cons by simp
qed

text \<open>
  Claim C4 (as amended).  In the read loop of \<open>scan_ble_devices\<close>: when the first
  line for an address carries a placeholder name and a later line carries a name, the
  result holds exactly one record for the address; its name is that of the earliest
  line for the address whose name is no placeholder, and its other fields are those of
  the first-seen record.  The loops that merge the records of several sources in
  \<open>run_wifi_scan\<close> and \<open>run_bluetooth_scan\<close> keep exactly the first-seen record
  of each address, unchanged.
\<close>

theorem C4_name_upgrade:
  "(List.map_filter match_ble lines = pre @ (A, n0) # mid @ (A, n) # post
      \<and> A \<notin> fst ` set pre \<and> placeholder_name n0 \<and> \<not> placeholder_name n
      \<and> (\<forall>e\<in>set mid. fst e = A \<longrightarrow> placeholder_name (snd e))
     \<longrightarrow> filter (\<lambda>d. bt_address d = A) (scan_ble_devices lines)
           = [(ble_device A n0)\<lparr>bt_name := n\<rparr>])
   \<and> (xs = before @ x # after \<and> key x = B \<and> B \<noteq> [] \<and> B \<notin> key ` set before
     \<longrightarrow> filter (\<lambda>y. key y = B) (fst (add_unique key xs ([], {}))) = [x])"
proof (intro conjI impI)
  assume h: "List.map_filter match_ble lines = pre @ (A, n0) # mid @ (A, n) # post
      \<and> A \<notin> fst ` set pre \<and> placeholder_name n0 \<and> \<not> placeholder_name n
      \<and> (\<forall>e\<in>set mid. fst e = A \<longrightarrow> placeholder_name (snd e))"
  let ?es = "List.map_filter match_ble lines"
  let ?P = "\<lambda>e. fst e = A \<and> \<not> placeholder_name (snd e)"
  have "find ?P pre = None" using h by (force simp: find_None_iff)
  moreover have "find ?P mid = None" using h by (auto simp: find_None_iff)
  ultimately have "find ?P ?es = Some (A, n)"
    using h by (simp add: find_append_cases)
  then have bn: "best_name A ?es = n" by (simp add: best_name_def)
  have "(A, n) \<in> set ?es" using h by simp
  then have "A \<in> fst ` set ?es" by force
  from ble_merge_result [OF this] bn h
  show "filter (\<lambda>d. bt_address d = A) (scan_ble_devices lines) = [(ble_device A n0)\<lparr>bt_name := n\<rparr>]"
    by (simp add: scan_ble_devices_def scan_ble_devices_entries ble_device_rename)
next
  assume h: "xs = before @ x # after \<and> key x = B \<and> B \<noteq> [] \<and> B \<notin> key ` set before"
  then have "B \<notin> key ` set before" by simp
  then have "find (\<lambda>y. key y = B) before = None"
    unfolding find_None_iff by (metis image_eqI)
  then have "find (\<lambda>y. key y = B) xs = Some x" using h by (simp add: find_append_cases)
  then show "filter (\<lambda>y. key y = B) (fst (add_unique key xs ([], {}))) = [x]"
    using h by (simp add: add_unique_filter)
qed

theorem C4_name_upgrade_witness:
  "filter (\<lambda>d. bt_address d = ''AA:BB:CC:DD:EE:FF'')
      (scan_ble_devices [''LE Scan ...'', ''AA:BB:CC:DD:EE:FF (unknown)'',
         ''AA:BB:CC:DD:EE:FF (unknown)'', ''AA:BB:CC:DD:EE:FF Pixel-7''])
     = [(ble_device ''AA:BB:CC:DD:EE:FF'' ''(unknown)'')\<lparr>bt_name := ''Pixel-7''\<rparr>]
   \<and> filter (\<lambda>y. bt_address y = ''AA:BB:CC:DD:EE:FF'')
        (fst (add_unique bt_address
           [classic_device ''11:22:33:44:55:66'' ''TV'',
            classic_device ''AA:BB:CC:DD:EE:FF'' [],
            ble_device ''AA:BB:CC:DD:EE:FF'' ''Pixel-7''] ([], {})))
     = [classic_device ''AA:BB:CC:DD:EE:FF'' []]"
proof -
  have m: "List.map_filter match_ble [''LE Scan ...'', ''AA:BB:CC:DD:EE:FF (unknown)'',
         ''AA:BB:CC:DD:EE:FF (unknown)'', ''AA:BB:CC:DD:EE:FF Pixel-7'']
      = [] @ (''AA:BB:CC:DD:EE:FF'', ''(unknown)'') # [(''AA:BB:CC:DD:EE:FF'', ''(unknown)'')]
          @ (''AA:BB:CC:DD:EE:FF'', ''Pixel-7'') # []"
    by code_simp
  have p: "placeholder_name ''(unknown)'' \<and> \<not> placeholder_name ''Pixel-7''"
    by (simp add: placeholder_name_def)
  have k: "bt_address (classic_device ''AA:BB:CC:DD:EE:FF'' []) = ''AA:BB:CC:DD:EE:FF''
      \<and> bt_address (classic_device ''11:22:33:44:55:66'' ''TV'') = ''11:22:33:44:55:66''"
    by (simp add: classic_device_def)
  note th = C4_name_upgrade [of "[''LE Scan ...'', ''AA:BB:CC:DD:EE:FF (unknown)'',
         ''AA:BB:CC:DD:EE:FF (unknown)'', ''AA:BB:CC:DD:EE:FF Pixel-7'']"
      "[]" "''AA:BB:CC:DD:EE:FF''" "''(unknown)''" "[(''AA:BB:CC:DD:EE:FF'', ''(unknown)'')]"
      "''Pixel-7''" "[]"
      "[classic_device ''11:22:33:44:55:66'' ''TV'',
            classic_device ''AA:BB:CC:DD:EE:FF'' [],
            ble_device ''AA:BB:CC:DD:EE:FF'' ''Pixel-7'']"
      "[classic_device ''11:22:33:44:55:66'' ''TV'']"
      "classic_device ''AA:BB:CC:DD:EE:FF'' []"
      "[ble_device ''AA:BB:CC:DD:EE:FF'' ''Pixel-7'']" bt_address "''AA:BB:CC:DD:EE:FF''"]
  from th m p k show ?thesis by simp
qed

text \<open>
  Claim C4 as stated fails twice.  Across sources: a classic record named
  \<open><unknown>\<close> followed by a BLE record of the same address named \<open>Pixel-7\<close>
  yields the classic record with its placeholder name.  Within the BLE loop: of two
  later names the earlier one is kept, not the later one.
\<close>

theorem C4_counterexample:
  "fst (collect_adapter [classic_device ''AA:BB:CC:DD:EE:FF'' []]
          [ble_device ''AA:BB:CC:DD:EE:FF'' ''Pixel-7''] ([], {}))
     = [classic_device ''AA:BB:CC:DD:EE:FF'' []]
   \<and> bt_name (classic_device ''AA:BB:CC:DD:EE:FF'' []) = ''<unknown>''
   \<and> bt_name (ble_device ''AA:BB:CC:DD:EE:FF'' ''Pixel-7'') = ''Pixel-7''
   \<and> map bt_name (scan_ble_devices [''AA:BB:CC:DD:EE:FF (unknown)'',
         ''AA:BB:CC:DD:EE:FF Pixel-7'', ''AA:BB:CC:DD:EE:FF Pixel-8'']) = [''Pixel-7'']"
  by code_simp

subsection \<open>Field updates of the line parsers\<close>







subsection \<open>Security inference of the line parsers\<close>












end
